theory Spec2Isabelle
  imports Complex_Main
begin

section \<open>Forward (strike-resetting) option engines and the Monte Carlo European pricer\<close>

text \<open>
  A shallow embedding of \<^verbatim>\<open>ql/PricingEngines/forwardengines.hpp\<close> and of the constructor
  in \<^verbatim>\<open>ql/Pricers/mceuropean.cpp\<close>.

  Conventions of the embedding.
  \<^item> A \<^verbatim>\<open>double\<close> (also \<^verbatim>\<open>Time\<close>, \<^verbatim>\<open>Rate\<close>) is a real number: rounding, infinities
    and NaN are outside the model. Where the source divides by zero it goes on with an
    infinity or a NaN and throws nothing; the model goes on too, with the quotient of the
    reals, which is not the source's number there. No theorem reads a quotient whose
    divisor is zero.
  \<^item> A member function that mutates its object takes the object and returns it updated.
    A member function that can throw returns a sum: \<open>Inr\<close> the object after a normal
    return, \<open>Inl\<close> the exception paired with the object as the throw leaves it.
  \<^item> Dereferencing a null pointer, which C++ leaves undefined, is an exception of its own
    in the model, so that it is a visible branch.
  \<^item> Classes, constants and virtual member functions that the two files use but do not
    define are parameters: the record \<open>library\<close> for constants and constructors of the
    library, the record \<open>PricingEngine\<close> for the virtual interface of the wrapped engine.
  \<^item> A \<^verbatim>\<open>Handle\<close> or \<^verbatim>\<open>RelinkableHandle\<close> stored in an object is modelled by the object it
    points to; only the handle passed to a constructor can be null.
\<close>

subsection \<open>Data\<close>

type_synonym Time = real
type_synonym Rate = real

text \<open>A \<^verbatim>\<open>Date\<close> is represented by its serial number.\<close>

type_synonym Date = int

text \<open>
  The enumerations are declared in headers outside the two files; their members play
  no part in what follows.
\<close>

datatype Option_Type = Call | Put | Straddle

datatype Exercise_Type = European | American | Bermudan

text \<open>
  A term structure, as far as the engines query it: \<^verbatim>\<open>ts->dayCounter().yearFraction(d1, d2)\<close>,
  \<^verbatim>\<open>ts->referenceDate()\<close>, \<^verbatim>\<open>ts->discount(d)\<close> and \<^verbatim>\<open>ts->zeroYield(d)\<close>.
\<close>

record DayCounter =
  yearFraction :: "Date \<Rightarrow> Date \<Rightarrow> Time"

record TermStructure =
  dayCounter :: DayCounter
  referenceDate :: Date
  discount :: "Date \<Rightarrow> real"
  zeroYield :: "Date \<Rightarrow> Rate"

text \<open>
  The template parameter \<^verbatim>\<open>ArgumentsType\<close>, with the members that the engines read and
  write. The volatility surface is never queried here, so its type \<open>'v\<close> is left open.
\<close>

record 'v ArgumentsType =
  type :: Option_Type
  underlying :: real
  strike :: real
  dividendTS :: TermStructure
  riskFreeTS :: TermStructure
  volTS :: 'v
  exerciseType :: Exercise_Type
  stoppingTimes :: "Time list"
  maturity :: Time

text \<open>The template parameter \<^verbatim>\<open>ResultsType\<close>; \<open>value'\<close> is the member \<^verbatim>\<open>value\<close>.\<close>

record ResultsType =
  value' :: real
  delta :: real
  gamma :: real
  theta :: real
  vega :: real
  rho :: real
  dividendRho :: real
  strikeSensitivity :: real

text \<open>\<^verbatim>\<open>class ForwardOptionArguments : public ArgumentsType\<close>\<close>

record 'v ForwardOptionArguments = "'v ArgumentsType" +
  moneyness :: real
  resetDate :: Date

text \<open>
  \<^verbatim>\<open>QL_REQUIRE(condition, message)\<close> throws an \<^verbatim>\<open>Error\<close> holding the message when the condition
  is false. The other exception stands for the use of a null pointer.
\<close>

datatype error =
  Error string
  | NullPointerDereference

text \<open>
  What the two files take from the rest of the library: the null values, the default
  constructors and the validation of the base arguments class, and the constructors of
  the implied term structures.
\<close>

record 'v library =
  Null_double :: real
  Null_Date :: Date
  ArgumentsType_ctor :: "'v ArgumentsType"
  ResultsType_ctor :: ResultsType
  ArgumentsType_validate :: "'v ArgumentsType \<Rightarrow> error + unit"
  ImpliedTermStructure :: "TermStructure \<Rightarrow> Date \<Rightarrow> Date \<Rightarrow> TermStructure"
  ImpliedVolTermStructure :: "'v \<Rightarrow> Date \<Rightarrow> 'v"

subsection \<open>\<^verbatim>\<open>ForwardOptionArguments\<close>\<close>

text \<open>
  \<^verbatim>\<open>ForwardOptionArguments() : moneyness(Null<double>()), resetDate(Null<Date>()) {}\<close>
\<close>

definition ForwardOptionArguments_ctor :: "'v library \<Rightarrow> 'v ForwardOptionArguments" where
  "ForwardOptionArguments_ctor lib =
     ArgumentsType.extend (ArgumentsType_ctor lib)
       (ForwardOptionArguments.fields (Null_double lib) (Null_Date lib))"

text \<open>
  The local variable \<^verbatim>\<open>resetTime\<close> of \<^verbatim>\<open>validate\<close> and of both \<^verbatim>\<open>getOriginalResults\<close>:
  \<^verbatim>\<open>riskFreeTS->dayCounter().yearFraction(riskFreeTS->referenceDate(), resetDate)\<close>.
\<close>

definition resetTime :: "'v ForwardOptionArguments \<Rightarrow> Time" where
  "resetTime a =
     yearFraction (dayCounter (riskFreeTS a)) (referenceDate (riskFreeTS a)) (resetDate a)"

text \<open>
  \<^verbatim>\<open>ForwardOptionArguments::validate\<close> (lines 49 to 69): the validation of the base class,
  then five requirements in this order.
\<close>

definition validate :: "'v library \<Rightarrow> 'v ForwardOptionArguments \<Rightarrow> error + unit" where
  "validate lib a =
     (case ArgumentsType_validate lib (ArgumentsType.truncate a) of
        Inl err \<Rightarrow> Inl err
      | Inr _ \<Rightarrow>
          if \<not> moneyness a \<noteq> Null_double lib then
            Inl (Error ''ForwardOptionArguments::validate() : null moneyness given'')
          else if \<not> moneyness a > 0 then
            Inl (Error ''ForwardOptionArguments::validate() : negative or zero moneyness given'')
          else if \<not> resetDate a \<noteq> Null_Date lib then
            Inl (Error ''ForwardOptionArguments::validate() : null reset date given'')
          else if \<not> resetTime a \<ge> 0 then
            Inl (Error ''ForwardOptionArguments::validate() : negative reset time given'')
          else if \<not> maturity a \<ge> resetTime a then
            Inl (Error ''ForwardOptionArguments::validate() : reset time greater than maturity'')
          else Inr ())"

subsection \<open>Engines\<close>

text \<open>
  The wrapped engine, a \<^verbatim>\<open>GenericEngine<ArgumentsType, ResultsType>\<close>, as the decorator
  sees it: the object behind \<^verbatim>\<open>arguments()\<close>, the object behind \<^verbatim>\<open>results()\<close>, and
  whatever else its class keeps.
\<close>

record ('v, 'h) OriginalEngine =
  arguments :: "'v ArgumentsType"
  results :: ResultsType
  internal :: 'h

text \<open>
  A raw pointer held by the decorator is null or points to the member of the wrapped
  engine that it was taken from.
\<close>

datatype pointer = null | pointing

text \<open>The outcome of a member function that can throw and that mutates its object.\<close>

type_synonym 's outcome = "(error \<times> 's) + 's"

text \<open>
  The virtual interface of the wrapped engine: \<^verbatim>\<open>reset()\<close>, \<^verbatim>\<open>calculate()\<close>, and what the
  two casts \<^verbatim>\<open>dynamic_cast<ArgumentsType*>(engine->arguments())\<close> and
  \<^verbatim>\<open>dynamic_cast<const ResultsType*>(engine->results())\<close> yield.
\<close>

record ('v, 'h) PricingEngine =
  reset :: "('v, 'h) OriginalEngine \<Rightarrow> ('v, 'h) OriginalEngine"
  calculate :: "('v, 'h) OriginalEngine \<Rightarrow> ('v, 'h) OriginalEngine outcome"
  dynamic_cast_arguments :: "('v, 'h) OriginalEngine \<Rightarrow> pointer"
  dynamic_cast_results :: "('v, 'h) OriginalEngine \<Rightarrow> pointer"

text \<open>
  \<^verbatim>\<open>class ForwardEngine : public GenericEngine<ForwardOptionArguments<ArgumentsType>, ResultsType>\<close>,
  with the members \<^verbatim>\<open>arguments_\<close> and \<^verbatim>\<open>results_\<close> that it inherits.
  \<^verbatim>\<open>ForwardPerformanceEngine\<close> derives from it and adds no member.
\<close>

record ('v, 'h) ForwardEngine =
  arguments_' :: "'v ForwardOptionArguments"
  results_' :: ResultsType
  originalEngine_' :: "('v, 'h) OriginalEngine"
  originalArguments_' :: pointer
  originalResults_' :: pointer

type_synonym ('v, 'h) ForwardPerformanceEngine = "('v, 'h) ForwardEngine"

text \<open>
  The constructor (lines 88 to 100). The argument is the handle to the wrapped engine,
  \<open>None\<close> when it is null. The only check is on the handle; the results of the two casts
  are stored as they come. The members \<^verbatim>\<open>arguments_\<close> and \<^verbatim>\<open>results_\<close> are
  default-constructed.
\<close>

definition ForwardEngine_ctor ::
  "'v library \<Rightarrow> ('v, 'h) PricingEngine \<Rightarrow> ('v, 'h) OriginalEngine option
     \<Rightarrow> error + ('v, 'h) ForwardEngine" where
  "ForwardEngine_ctor lib cls originalEngine =
     (case originalEngine of
        None \<Rightarrow> Inl (Error ''ForwardEngine::ForwardEngine : null engine or wrong engine type'')
      | Some w \<Rightarrow>
          Inr \<lparr>arguments_' = ForwardOptionArguments_ctor lib,
               results_' = ResultsType_ctor lib,
               originalEngine_' = w,
               originalArguments_' = dynamic_cast_arguments cls w,
               originalResults_' = dynamic_cast_results cls w\<rparr>)"

definition ForwardPerformanceEngine_ctor ::
  "'v library \<Rightarrow> ('v, 'h) PricingEngine \<Rightarrow> ('v, 'h) OriginalEngine option
     \<Rightarrow> error + ('v, 'h) ForwardPerformanceEngine" where
  "ForwardPerformanceEngine_ctor lib cls originalEngine =
     ForwardEngine_ctor lib cls originalEngine"

text \<open>
  \<^verbatim>\<open>ForwardEngine::setOriginalArguments\<close> (lines 105 to 143). Every assignment goes through
  \<^verbatim>\<open>originalArguments_\<close>; the call of \<^verbatim>\<open>validate\<close> comes last.
\<close>

definition setOriginalArguments ::
  "'v library \<Rightarrow> ('v, 'h) ForwardEngine \<Rightarrow> ('v, 'h) ForwardEngine outcome" where
  "setOriginalArguments lib e =
     (case originalArguments_' e of
        null \<Rightarrow> Inl (NullPointerDereference, e)
      | pointing \<Rightarrow>
         (let a = arguments_' e;
              oa = (arguments (originalEngine_' e))
                     \<lparr>type := type a,
                      underlying := underlying a,
                      strike := moneyness a * underlying a,
                      dividendTS :=
                        ImpliedTermStructure lib (dividendTS a) (resetDate a) (resetDate a),
                      riskFreeTS :=
                        ImpliedTermStructure lib (riskFreeTS a) (resetDate a) (resetDate a),
                      volTS := ImpliedVolTermStructure lib (volTS a) (resetDate a),
                      exerciseType := exerciseType a,
                      stoppingTimes := stoppingTimes a,
                      maturity := maturity a\<rparr>;
              e' = e\<lparr>originalEngine_' := (originalEngine_' e)\<lparr>arguments := oa\<rparr>\<rparr>
          in case ArgumentsType_validate lib oa of
               Inl err \<Rightarrow> Inl (err, e')
             | Inr _ \<Rightarrow> Inr e'))"

text \<open>
  \<^verbatim>\<open>ForwardEngine::getOriginalResults\<close> (lines 155 to 175). The assignments are kept in the
  order of the source: theta and dividendRho read the value that was just assigned.
\<close>

definition ForwardEngine_getOriginalResults ::
  "('v, 'h) ForwardEngine \<Rightarrow> ('v, 'h) ForwardEngine outcome" where
  "ForwardEngine_getOriginalResults e =
     (let a = arguments_' e;
          resetTime = yearFraction (dayCounter (riskFreeTS a))
                        (referenceDate (riskFreeTS a)) (resetDate a);
          discQ = discount (dividendTS a) (resetDate a)
      in case originalResults_' e of
           null \<Rightarrow> Inl (NullPointerDereference, e)
         | pointing \<Rightarrow>
             let r = results (originalEngine_' e);
                 r1 = (results_' e)\<lparr>value' := discQ * value' r\<rparr>;
                 r2 = r1\<lparr>delta := discQ * (delta r + moneyness a * strikeSensitivity r)\<rparr>;
                 r3 = r2\<lparr>gamma := 0\<rparr>;
                 r4 = r3\<lparr>theta := zeroYield (dividendTS a) (resetDate a) * value' r3\<rparr>;
                 r5 = r4\<lparr>vega := discQ * vega r\<rparr>;
                 r6 = r5\<lparr>rho := discQ * rho r\<rparr>;
                 r7 = r6\<lparr>dividendRho := - resetTime * value' r6 + discQ * dividendRho r\<rparr>
             in Inr (e\<lparr>results_' := r7\<rparr>))"

text \<open>\<^verbatim>\<open>ForwardEngine::calculate\<close> (lines 147 to 153).\<close>

definition ForwardEngine_calculate ::
  "'v library \<Rightarrow> ('v, 'h) PricingEngine \<Rightarrow> ('v, 'h) ForwardEngine
     \<Rightarrow> ('v, 'h) ForwardEngine outcome" where
  "ForwardEngine_calculate lib cls e =
     (let e0 = e\<lparr>originalEngine_' := reset cls (originalEngine_' e)\<rparr>
      in case setOriginalArguments lib e0 of
           Inl thrown \<Rightarrow> Inl thrown
         | Inr e1 \<Rightarrow>
             (case calculate cls (originalEngine_' e1) of
                Inl (err, w) \<Rightarrow> Inl (err, e1\<lparr>originalEngine_' := w\<rparr>)
              | Inr w \<Rightarrow> ForwardEngine_getOriginalResults (e1\<lparr>originalEngine_' := w\<rparr>)))"

text \<open>
  \<^verbatim>\<open>ForwardPerformanceEngine::getOriginalResults\<close> (lines 210 to 231). The division
  \<^verbatim>\<open>discR /= arguments_.underlying\<close> is not guarded and throws nothing.
\<close>

definition ForwardPerformanceEngine_getOriginalResults ::
  "('v, 'h) ForwardPerformanceEngine \<Rightarrow> ('v, 'h) ForwardPerformanceEngine outcome" where
  "ForwardPerformanceEngine_getOriginalResults e =
     (let a = arguments_' e;
          resetTime = yearFraction (dayCounter (riskFreeTS a))
                        (referenceDate (riskFreeTS a)) (resetDate a);
          discR = discount (riskFreeTS a) (resetDate a);
          discR = discR / underlying a
      in case originalResults_' e of
           null \<Rightarrow> Inl (NullPointerDereference, e)
         | pointing \<Rightarrow>
             let r = results (originalEngine_' e);
                 temp = value' r;
                 r1 = (results_' e)\<lparr>value' := discR * temp\<rparr>;
                 r2 = r1\<lparr>delta := 0\<rparr>;
                 r3 = r2\<lparr>gamma := 0\<rparr>;
                 r4 = r3\<lparr>theta := zeroYield (riskFreeTS a) (resetDate a) * value' r3\<rparr>;
                 r5 = r4\<lparr>vega := discR * vega r\<rparr>;
                 r6 = r5\<lparr>rho := - resetTime * value' r5 + discR * rho r\<rparr>;
                 r7 = r6\<lparr>dividendRho := discR * dividendRho r\<rparr>
             in Inr (e\<lparr>results_' := r7\<rparr>))"

text \<open>\<^verbatim>\<open>ForwardPerformanceEngine::calculate\<close> (lines 202 to 208): no call of \<^verbatim>\<open>reset()\<close>.\<close>

definition ForwardPerformanceEngine_calculate ::
  "'v library \<Rightarrow> ('v, 'h) PricingEngine \<Rightarrow> ('v, 'h) ForwardPerformanceEngine
     \<Rightarrow> ('v, 'h) ForwardPerformanceEngine outcome" where
  "ForwardPerformanceEngine_calculate lib cls e =
     (case setOriginalArguments lib e of
        Inl thrown \<Rightarrow> Inl thrown
      | Inr e1 \<Rightarrow>
          (case calculate cls (originalEngine_' e1) of
             Inl (err, w) \<Rightarrow> Inl (err, e1\<lparr>originalEngine_' := w\<rparr>)
           | Inr w \<Rightarrow>
               ForwardPerformanceEngine_getOriginalResults (e1\<lparr>originalEngine_' := w\<rparr>)))"

text \<open>The object as a member function leaves it, whether it returns or throws.\<close>

definition object_after :: "'s outcome \<Rightarrow> 's" where
  "object_after out = (case out of Inl (err, s) \<Rightarrow> s | Inr s \<Rightarrow> s)"


text \<open>
  What a caller of the wrapped engine's \<^verbatim>\<open>calculate()\<close> observes: the exception, or the
  results after a normal return.
\<close>

definition observed :: "('v, 'h) OriginalEngine outcome \<Rightarrow> error + ResultsType" where
  "observed out = (case out of Inl (err, w) \<Rightarrow> Inl err | Inr w \<Rightarrow> Inr (results w))"

text \<open>
  A wrapped engine in the state \<open>w\<close> reproduces its results on the arguments \<open>a\<close> when
  \<^verbatim>\<open>calculate()\<close>, run on it after \<^verbatim>\<open>reset()\<close> with these arguments, returns with the results
  that \<open>w\<close> holds.
\<close>

definition reproduces_results ::
  "('v, 'h) PricingEngine \<Rightarrow> 'v ArgumentsType \<Rightarrow> ('v, 'h) OriginalEngine \<Rightarrow> bool" where
  "reproduces_results cls a w =
     (observed (calculate cls ((reset cls w)\<lparr>arguments := a\<rparr>)) = Inr (results w))"

subsection \<open>The Monte Carlo European pricer\<close>

text \<open>
  The constructors of \<^verbatim>\<open>GaussianPathGenerator\<close>, \<^verbatim>\<open>EuropeanPathPricer\<close> and
  \<^verbatim>\<open>Math::Statistics\<close> are not in the file: they are parameters, applied to their
  arguments in the order of the call, and the first two may throw. \<open>'g\<close>, \<open>'p\<close> and \<open>'s\<close>
  are the objects that they construct. A \<^verbatim>\<open>long\<close> seed is an integer; no arithmetic is
  done on it.
\<close>

record ('g, 'p, 's) MonteCarlo =
  GaussianPathGenerator :: "real \<Rightarrow> real \<Rightarrow> Time \<Rightarrow> nat \<Rightarrow> int \<Rightarrow> error + 'g"
  EuropeanPathPricer :: "Option_Type \<Rightarrow> real \<Rightarrow> real \<Rightarrow> real \<Rightarrow> bool \<Rightarrow> error + 'p"
  Statistics :: 's

datatype ('g, 'p, 's) MonteCarloModel = MonteCarloModel 'g 'p 's

record ('g, 'p, 's) McEuropean =
  mcModel_' :: "('g, 'p, 's) MonteCarloModel"

text \<open>The constructor of \<^verbatim>\<open>McEuropean\<close> (\<^verbatim>\<open>mceuropean.cpp\<close>, lines 45 to 70).\<close>

definition McEuropean_ctor ::
  "('g, 'p, 's) MonteCarlo \<Rightarrow> Option_Type \<Rightarrow> real \<Rightarrow> real \<Rightarrow> Rate \<Rightarrow> Rate \<Rightarrow> real \<Rightarrow> real
     \<Rightarrow> bool \<Rightarrow> int \<Rightarrow> error + ('g, 'p, 's) McEuropean" where
  "McEuropean_ctor mc type' underlying' strike' dividendYield riskFreeRate residualTime
       volatility antitheticVariance seed =
     (let mu = riskFreeRate - dividendYield - 0.5 * volatility * volatility
      in case GaussianPathGenerator mc mu (volatility * volatility) residualTime 1 seed of
           Inl err \<Rightarrow> Inl err
         | Inr pathGenerator \<Rightarrow>
             (case EuropeanPathPricer mc type' underlying' strike'
                     (exp (- riskFreeRate * residualTime)) antitheticVariance of
                Inl err \<Rightarrow> Inl err
              | Inr euroPathPricer \<Rightarrow>
                  Inr \<lparr>mcModel_' =
                         MonteCarloModel pathGenerator euroPathPricer (Statistics mc)\<rparr>))"

subsection \<open>Example objects\<close>

text \<open>
  Concrete objects on which the theorems below are instantiated: flat curves with an
  Actual/360 day counter, a library whose base validation accepts everything, and five
  wrapped engines.
\<close>

definition flat_curve :: "Date \<Rightarrow> real \<Rightarrow> Rate \<Rightarrow> TermStructure" where
  "flat_curve today df z =
     \<lparr>dayCounter = \<lparr>yearFraction = (\<lambda>d1 d2. real_of_int (d2 - d1) / 360)\<rparr>,
      referenceDate = today,
      discount = (\<lambda>d. df),
      zeroYield = (\<lambda>d. z)\<rparr>"

definition unset_results :: ResultsType where
  "unset_results =
     \<lparr>value' = 10 ^ 38, delta = 10 ^ 38, gamma = 10 ^ 38, theta = 10 ^ 38, vega = 10 ^ 38,
      rho = 10 ^ 38, dividendRho = 10 ^ 38, strikeSensitivity = 10 ^ 38\<rparr>"

definition unset_arguments :: "unit ArgumentsType" where
  "unset_arguments =
     \<lparr>type = Straddle, underlying = 10 ^ 38, strike = 10 ^ 38,
      dividendTS = flat_curve 0 1 0, riskFreeTS = flat_curve 0 1 0, volTS = (),
      exerciseType = European, stoppingTimes = [], maturity = 10 ^ 38\<rparr>"

definition example_library :: "unit library" where
  "example_library =
     \<lparr>Null_double = 10 ^ 38,
      Null_Date = 0,
      ArgumentsType_ctor = unset_arguments,
      ResultsType_ctor = unset_results,
      ArgumentsType_validate = (\<lambda>a. Inr ()),
      ImpliedTermStructure = (\<lambda>ts d1 d2. ts\<lparr>referenceDate := d2\<rparr>),
      ImpliedVolTermStructure = (\<lambda>v d. v)\<rparr>"

text \<open>
  A forward-starting call: moneyness 1, reset after 180 days, maturity one year, dividend
  discount factor 0.98 at the reset date.
\<close>

definition example_arguments :: "real \<Rightarrow> unit ForwardOptionArguments" where
  "example_arguments u =
     \<lparr>type = Call, underlying = u, strike = 10 ^ 38,
      dividendTS = flat_curve 37000 (98 / 100) (4 / 100),
      riskFreeTS = flat_curve 37000 (975 / 1000) (5 / 100),
      volTS = (), exerciseType = European, stoppingTimes = [], maturity = 1,
      moneyness = 1, resetDate = 37180\<rparr>"

definition stub_results :: ResultsType where
  "stub_results =
     \<lparr>value' = 10, delta = 5 / 10, gamma = 1 / 100, theta = - 1, vega = 2, rho = 1,
      dividendRho = 4 / 10, strikeSensitivity = - (3 / 10)\<rparr>"



text \<open>
  A wrapped engine that keeps, beside its arguments and results, the position that it
  has reached in a stream of draws: \<^verbatim>\<open>calculate()\<close> reports the position as the value and
  advances it; \<^verbatim>\<open>reset()\<close> clears the results and does not rewind the stream.
\<close>

definition sampling_engine :: "(unit, nat) PricingEngine" where
  "sampling_engine =
     \<lparr>reset = (\<lambda>w. w\<lparr>results := unset_results\<rparr>),
      calculate =
        (\<lambda>w. Inr (w\<lparr>results := stub_results\<lparr>value' := real (internal w)\<rparr>,
                      internal := internal w + 1\<rparr>)),
      dynamic_cast_arguments = (\<lambda>w. pointing),
      dynamic_cast_results = (\<lambda>w. pointing)\<rparr>"

text \<open>
  A wrapped engine whose \<^verbatim>\<open>calculate()\<close> adds one to the value that its results hold, and
  whose \<^verbatim>\<open>reset()\<close> sets that value to zero.
\<close>

definition accumulating_engine :: "(unit, unit) PricingEngine" where
  "accumulating_engine =
     \<lparr>reset = (\<lambda>w. w\<lparr>results := (results w)\<lparr>value' := 0\<rparr>\<rparr>),
      calculate = (\<lambda>w. Inr (w\<lparr>results := (results w)\<lparr>value' := value' (results w) + 1\<rparr>\<rparr>)),
      dynamic_cast_arguments = (\<lambda>w. pointing),
      dynamic_cast_results = (\<lambda>w. pointing)\<rparr>"


definition example_original :: "'h \<Rightarrow> (unit, 'h) OriginalEngine" where
  "example_original h =
     \<lparr>arguments = unset_arguments, results = stub_results, internal = h\<rparr>"

definition example_engine :: "real \<Rightarrow> 'h \<Rightarrow> (unit, 'h) ForwardEngine" where
  "example_engine u h =
     \<lparr>arguments_' = example_arguments u,
      results_' = unset_results,
      originalEngine_' = example_original h,
      originalArguments_' = pointing,
      originalResults_' = pointing\<rparr>"

text \<open>
  Constructors for the Monte Carlo pricer that record their arguments. The path generator
  refuses a variance or a length that is not positive, and a number of steps that is zero;
  the path pricer refuses a discount that is not positive.
\<close>

datatype recorded_generator = Generator real real Time nat int

datatype recorded_pricer = Pricer Option_Type real real real bool

definition checking_MonteCarlo :: "(recorded_generator, recorded_pricer, unit) MonteCarlo" where
  "checking_MonteCarlo =
     \<lparr>GaussianPathGenerator =
        (\<lambda>drift variance len steps seed.
           if variance \<le> 0 then Inl (Error ''variance must be positive'')
           else if len \<le> 0 then Inl (Error ''length must be positive'')
           else if steps = 0 then Inl (Error ''no time step'')
           else Inr (Generator drift variance len steps seed)),
      EuropeanPathPricer =
        (\<lambda>t u k disc antithetic.
           if disc \<le> 0 then Inl (Error ''discount must be positive'')
           else Inr (Pricer t u k disc antithetic)),
      Statistics = ()\<rparr>"

subsection \<open>Validation of forward-option arguments\<close>

text \<open>
  C3. When the base class accepts the arguments, \<^verbatim>\<open>ForwardOptionArguments::validate\<close>
  returns normally exactly when none of the five conditions holds: the moneyness is null,
  the moneyness is at most zero, the reset date is null, the reset time is negative, the
  reset time exceeds the maturity. Otherwise it throws an \<^verbatim>\<open>Error\<close>, and the message is that
  of the first condition that holds, which names the moneyness, the reset date or the
  reset time.
\<close>

theorem validate_fails_iff:
  assumes base: "ArgumentsType_validate lib (ArgumentsType.truncate a) = Inr ()"
  shows "(validate lib a = Inr ()) =
           (\<not> (moneyness a = Null_double lib \<or> moneyness a \<le> 0 \<or> resetDate a = Null_Date lib
               \<or> resetTime a < 0 \<or> resetTime a > maturity a))
       \<and> (\<exists>msg. validate lib a = Inl (Error msg)) =
           (moneyness a = Null_double lib \<or> moneyness a \<le> 0 \<or> resetDate a = Null_Date lib
               \<or> resetTime a < 0 \<or> resetTime a > maturity a)
       \<and> validate lib a =
           (if moneyness a = Null_double lib then
              Inl (Error ''ForwardOptionArguments::validate() : null moneyness given'')
            else if moneyness a \<le> 0 then
              Inl (Error ''ForwardOptionArguments::validate() : negative or zero moneyness given'')
            else if resetDate a = Null_Date lib then
              Inl (Error ''ForwardOptionArguments::validate() : null reset date given'')
            else if resetTime a < 0 then
              Inl (Error ''ForwardOptionArguments::validate() : negative reset time given'')
            else if resetTime a > maturity a then
              Inl (Error ''ForwardOptionArguments::validate() : reset time greater than maturity'')
            else Inr ())"
  using base by (auto simp add: validate_def)

theorem validate_fails_iff_witness:
  "ArgumentsType_validate example_library (ArgumentsType.truncate (example_arguments 100)) = Inr ()
   \<and> validate example_library (example_arguments 100) = Inr ()
   \<and> validate example_library ((example_arguments 100)\<lparr>resetDate := 36990\<rparr>)
       = Inl (Error ''ForwardOptionArguments::validate() : negative reset time given'')"
proof -
  have b1: "ArgumentsType_validate example_library (ArgumentsType.truncate (example_arguments 100)) = Inr ()"
    by (simp add: example_library_def)
  have b2: "ArgumentsType_validate example_library
              (ArgumentsType.truncate ((example_arguments 100)\<lparr>resetDate := 36990\<rparr>)) = Inr ()"
    by (simp add: example_library_def)
  show ?thesis
    using validate_fails_iff [OF b1] validate_fails_iff [OF b2] b1
    by (simp add: example_library_def example_arguments_def resetTime_def flat_curve_def)
qed

subsection \<open>Constructing the decorator\<close>

text \<open>
  What the constructor does: it throws exactly when the handle to the wrapped engine is
  null, with the message \<^verbatim>\<open>null engine or wrong engine type\<close>. For a handle that is not
  null it returns a decorator whose views are what the two casts yield, null included.
\<close>

lemma ctor_checks_handle_only:
  "ForwardEngine_ctor lib cls None
     = Inl (Error ''ForwardEngine::ForwardEngine : null engine or wrong engine type'')
   \<and> (\<exists>e. ForwardEngine_ctor lib cls (Some w) = Inr e
          \<and> originalEngine_' e = w
          \<and> originalArguments_' e = dynamic_cast_arguments cls w
          \<and> originalResults_' e = dynamic_cast_results cls w)"
  by (simp add: ForwardEngine_ctor_def)


subsection \<open>Transforming the arguments\<close>

text \<open>
  Writing all nine members of a plain arguments object leaves nothing of what it held.
\<close>

lemma overwrite_all_fields:
  fixes r :: "'v ArgumentsType"
  shows "r\<lparr>type := t, underlying := u, strike := k, dividendTS := q, riskFreeTS := rf,
            volTS := v, exerciseType := x, stoppingTimes := st, maturity := m\<rparr>
         = \<lparr>type = t, underlying = u, strike = k, dividendTS = q, riskFreeTS = rf,
            volTS = v, exerciseType = x, stoppingTimes = st, maturity = m\<rparr>"
  by (cases r) simp

lemma setOriginalArguments_resolved:
  assumes "originalArguments_' e = pointing"
  shows "setOriginalArguments lib e =
           (let a = arguments_' e;
                oa = \<lparr>type = type a,
                      underlying = underlying a,
                      strike = moneyness a * underlying a,
                      dividendTS =
                        ImpliedTermStructure lib (dividendTS a) (resetDate a) (resetDate a),
                      riskFreeTS =
                        ImpliedTermStructure lib (riskFreeTS a) (resetDate a) (resetDate a),
                      volTS = ImpliedVolTermStructure lib (volTS a) (resetDate a),
                      exerciseType = exerciseType a,
                      stoppingTimes = stoppingTimes a,
                      maturity = maturity a\<rparr>;
                e' = e\<lparr>originalEngine_' := (originalEngine_' e)\<lparr>arguments := oa\<rparr>\<rparr>
            in case ArgumentsType_validate lib oa of
                 Inl err \<Rightarrow> Inl (err, e')
               | Inr _ \<Rightarrow> Inr e')"
  using assms
  by (simp only: setOriginalArguments_def Let_def overwrite_all_fields pointer.case)

lemma setOriginalArguments_frame:
  "arguments_' (object_after (setOriginalArguments lib e)) = arguments_' e
   \<and> results_' (object_after (setOriginalArguments lib e)) = results_' e"
  by (cases "originalArguments_' e")
     (simp_all add: setOriginalArguments_def Let_def object_after_def split: sum.split)

text \<open>
  C6. On a decorator whose view of the wrapped arguments is resolved,
  \<^verbatim>\<open>setOriginalArguments\<close> makes the wrapped arguments hold the option type, underlying,
  exercise type, stopping times and maturity of the decorator's arguments, the strike
  moneyness times underlying, and implied dividend curve, risk-free curve and volatility
  surface built at the reset date. It then calls the wrapped arguments' \<^verbatim>\<open>validate\<close> and
  throws what that throws. Whether it returns or throws, the decorator's own arguments
  and results are as before.
\<close>

theorem setOriginalArguments_effect:
  assumes "originalArguments_' e = pointing"
  shows "setOriginalArguments lib e =
           (let a = arguments_' e;
                oa = \<lparr>type = type a,
                      underlying = underlying a,
                      strike = moneyness a * underlying a,
                      dividendTS =
                        ImpliedTermStructure lib (dividendTS a) (resetDate a) (resetDate a),
                      riskFreeTS =
                        ImpliedTermStructure lib (riskFreeTS a) (resetDate a) (resetDate a),
                      volTS = ImpliedVolTermStructure lib (volTS a) (resetDate a),
                      exerciseType = exerciseType a,
                      stoppingTimes = stoppingTimes a,
                      maturity = maturity a\<rparr>;
                e' = e\<lparr>originalEngine_' := (originalEngine_' e)\<lparr>arguments := oa\<rparr>\<rparr>
            in case ArgumentsType_validate lib oa of
                 Inl err \<Rightarrow> Inl (err, e')
               | Inr _ \<Rightarrow> Inr e')
       \<and> arguments_' (object_after (setOriginalArguments lib e)) = arguments_' e
       \<and> results_' (object_after (setOriginalArguments lib e)) = results_' e"
  using setOriginalArguments_resolved [OF assms, of lib] setOriginalArguments_frame [of lib e]
  by blast

theorem setOriginalArguments_effect_witness:
  "originalArguments_' (example_engine 100 ()) = pointing
   \<and> setOriginalArguments example_library (example_engine 100 ()) =
       Inr ((example_engine 100 ())\<lparr>originalEngine_' :=
              (example_original ())\<lparr>arguments :=
                 \<lparr>type = Call, underlying = 100, strike = 100,
                  dividendTS = flat_curve 37180 (98 / 100) (4 / 100),
                  riskFreeTS = flat_curve 37180 (975 / 1000) (5 / 100),
                  volTS = (), exerciseType = European, stoppingTimes = [],
                  maturity = 1\<rparr>\<rparr>\<rparr>)"
proof -
  have p: "originalArguments_' (example_engine 100 ()) = pointing"
    by (simp add: example_engine_def)
  show ?thesis
    using setOriginalArguments_effect [OF p, of example_library] p
    by (simp add: Let_def example_engine_def example_arguments_def example_library_def
        flat_curve_def)
qed

subsection \<open>Transforming the results\<close>

text \<open>
  C1. On a decorator whose view of the wrapped results is resolved,
  \<^verbatim>\<open>ForwardEngine::getOriginalResults\<close> returns normally, for every state of the arguments,
  and sets value = discQ * wrapped value, delta = discQ * (wrapped delta + moneyness *
  wrapped strike sensitivity), gamma = 0, theta = dividend zero yield at the reset date *
  value, vega = discQ * wrapped vega, rho = discQ * wrapped rho and dividendRho =
  - resetTime * value + discQ * wrapped dividendRho, where discQ is the dividend curve's
  discount at the reset date. Nothing else of the decorator changes.
\<close>

theorem getOriginalResults_formulas:
  assumes "originalResults_' e = pointing"
  shows "ForwardEngine_getOriginalResults e =
           (let a = arguments_' e;
                wrapped = results (originalEngine_' e);
                discQ = discount (dividendTS a) (resetDate a);
                v = discQ * value' wrapped
            in Inr (e\<lparr>results_' := (results_' e)
                   \<lparr>value' := v,
                    delta := discQ * (delta wrapped + moneyness a * strikeSensitivity wrapped),
                    gamma := 0,
                    theta := zeroYield (dividendTS a) (resetDate a) * v,
                    vega := discQ * vega wrapped,
                    rho := discQ * rho wrapped,
                    dividendRho := - resetTime a * v + discQ * dividendRho wrapped\<rparr>\<rparr>))"
  using assms
  by (simp add: ForwardEngine_getOriginalResults_def Let_def resetTime_def)

theorem getOriginalResults_formulas_witness:
  "originalResults_' (example_engine 100 ()) = pointing
   \<and> ForwardEngine_getOriginalResults (example_engine 100 ()) =
       Inr ((example_engine 100 ())\<lparr>results_' :=
              \<lparr>value' = 98 / 10, delta = 196 / 1000, gamma = 0, theta = 392 / 1000,
               vega = 196 / 100, rho = 98 / 100, dividendRho = - (4508 / 1000),
               strikeSensitivity = 10 ^ 38\<rparr>\<rparr>)"
proof -
  have p: "originalResults_' (example_engine 100 ()) = pointing"
    by (simp add: example_engine_def)
  show ?thesis
    using getOriginalResults_formulas [OF p] p
    by (simp add: Let_def example_engine_def example_arguments_def example_original_def
        stub_results_def unset_results_def flat_curve_def resetTime_def)
qed

text \<open>
  C2. On a decorator whose view of the wrapped results is resolved and whose underlying
  is not zero, \<^verbatim>\<open>ForwardPerformanceEngine::getOriginalResults\<close> returns normally and sets
  value = discR * wrapped value, delta = 0, gamma = 0, theta = risk-free zero yield at the
  reset date * value, vega = discR * wrapped vega, rho = - resetTime * value + discR *
  wrapped rho and dividendRho = discR * wrapped dividendRho, where discR is the risk-free
  curve's discount at the reset date divided by the underlying. Nothing else of the
  decorator changes.
\<close>

theorem performance_getOriginalResults_formulas:
  assumes "originalResults_' e = pointing" and "underlying (arguments_' e) \<noteq> 0"
  shows "ForwardPerformanceEngine_getOriginalResults e =
           (let a = arguments_' e;
                wrapped = results (originalEngine_' e);
                discR = discount (riskFreeTS a) (resetDate a) / underlying a;
                v = discR * value' wrapped
            in Inr (e\<lparr>results_' := (results_' e)
                   \<lparr>value' := v,
                    delta := 0,
                    gamma := 0,
                    theta := zeroYield (riskFreeTS a) (resetDate a) * v,
                    vega := discR * vega wrapped,
                    rho := - resetTime a * v + discR * rho wrapped,
                    dividendRho := discR * dividendRho wrapped\<rparr>\<rparr>))"
  using assms
  by (simp add: ForwardPerformanceEngine_getOriginalResults_def Let_def resetTime_def)

theorem performance_getOriginalResults_formulas_witness:
  "originalResults_' (example_engine 100 ()) = pointing
   \<and> underlying (arguments_' (example_engine 100 ())) \<noteq> 0
   \<and> ForwardPerformanceEngine_getOriginalResults (example_engine 100 ()) =
       Inr ((example_engine 100 ())\<lparr>results_' :=
              \<lparr>value' = 975 / 10000, delta = 0, gamma = 0, theta = 4875 / 1000000,
               vega = 195 / 10000, rho = - (39 / 1000), dividendRho = 39 / 10000,
               strikeSensitivity = 10 ^ 38\<rparr>\<rparr>)"
proof -
  have p: "originalResults_' (example_engine 100 ()) = pointing"
    by (simp add: example_engine_def)
  have u: "underlying (arguments_' (example_engine 100 ())) \<noteq> 0"
    by (simp add: example_engine_def example_arguments_def)
  show ?thesis
    using performance_getOriginalResults_formulas [OF p u] p u
    by (simp add: Let_def example_engine_def example_arguments_def example_original_def
        stub_results_def unset_results_def flat_curve_def resetTime_def)
qed





subsection \<open>The two \<^verbatim>\<open>calculate\<close>\<close>

text \<open>
  C4. \<^verbatim>\<open>ForwardEngine::calculate\<close> resets the wrapped engine, then runs
  \<^verbatim>\<open>setOriginalArguments\<close>, then the wrapped engine's \<^verbatim>\<open>calculate\<close>, then
  \<^verbatim>\<open>getOriginalResults\<close>, and stops at the first that throws.
  \<^verbatim>\<open>ForwardPerformanceEngine::calculate\<close> runs the last three and never resets. On a
  decorator whose view of the wrapped arguments is resolved, the two are one and the same
  run (write the transformed arguments, validate them, let the wrapped engine calculate,
  transform the results) that differs in where it starts: from the wrapped engine after
  \<^verbatim>\<open>reset()\<close> for the forward engine, from the wrapped engine as the previous call left it
  for the performance engine.
\<close>

theorem calculate_order:
  "ForwardEngine_calculate lib cls e =
     (case setOriginalArguments lib (e\<lparr>originalEngine_' := reset cls (originalEngine_' e)\<rparr>) of
        Inl thrown \<Rightarrow> Inl thrown
      | Inr e1 \<Rightarrow>
          (case calculate cls (originalEngine_' e1) of
             Inl (err, w) \<Rightarrow> Inl (err, e1\<lparr>originalEngine_' := w\<rparr>)
           | Inr w \<Rightarrow> ForwardEngine_getOriginalResults (e1\<lparr>originalEngine_' := w\<rparr>)))
   \<and> ForwardPerformanceEngine_calculate lib cls e =
     (case setOriginalArguments lib e of
        Inl thrown \<Rightarrow> Inl thrown
      | Inr e1 \<Rightarrow>
          (case calculate cls (originalEngine_' e1) of
             Inl (err, w) \<Rightarrow> Inl (err, e1\<lparr>originalEngine_' := w\<rparr>)
           | Inr w \<Rightarrow> ForwardPerformanceEngine_getOriginalResults (e1\<lparr>originalEngine_' := w\<rparr>)))
   \<and> (originalArguments_' e = pointing \<longrightarrow>
        (let a = arguments_' e;
             oa = \<lparr>type = type a,
                   underlying = underlying a,
                   strike = moneyness a * underlying a,
                   dividendTS =
                     ImpliedTermStructure lib (dividendTS a) (resetDate a) (resetDate a),
                   riskFreeTS =
                     ImpliedTermStructure lib (riskFreeTS a) (resetDate a) (resetDate a),
                   volTS = ImpliedVolTermStructure lib (volTS a) (resetDate a),
                   exerciseType = exerciseType a,
                   stoppingTimes = stoppingTimes a,
                   maturity = maturity a\<rparr>;
             run = (\<lambda>start finish.
                      case ArgumentsType_validate lib oa of
                        Inl err \<Rightarrow> Inl (err, e\<lparr>originalEngine_' := start\<lparr>arguments := oa\<rparr>\<rparr>)
                      | Inr _ \<Rightarrow>
                          (case calculate cls (start\<lparr>arguments := oa\<rparr>) of
                             Inl (err, w) \<Rightarrow> Inl (err, e\<lparr>originalEngine_' := w\<rparr>)
                           | Inr w \<Rightarrow> finish (e\<lparr>originalEngine_' := w\<rparr>)))
         in ForwardEngine_calculate lib cls e
              = run (reset cls (originalEngine_' e)) ForwardEngine_getOriginalResults
          \<and> ForwardPerformanceEngine_calculate lib cls e
              = run (originalEngine_' e) ForwardPerformanceEngine_getOriginalResults))"
  (is "?forward \<and> ?performance \<and> (?resolved \<longrightarrow> ?same_run)")
proof (intro conjI impI)
  show ?forward
    by (simp add: ForwardEngine_calculate_def)
next
  show ?performance
    by (simp add: ForwardPerformanceEngine_calculate_def)
next
  assume p: ?resolved
  define oa where
    "oa = \<lparr>type = type (arguments_' e),
            underlying = underlying (arguments_' e),
            strike = moneyness (arguments_' e) * underlying (arguments_' e),
            dividendTS =
              ImpliedTermStructure lib (dividendTS (arguments_' e)) (resetDate (arguments_' e))
                (resetDate (arguments_' e)),
            riskFreeTS =
              ImpliedTermStructure lib (riskFreeTS (arguments_' e)) (resetDate (arguments_' e))
                (resetDate (arguments_' e)),
            volTS = ImpliedVolTermStructure lib (volTS (arguments_' e)) (resetDate (arguments_' e)),
            exerciseType = exerciseType (arguments_' e),
            stoppingTimes = stoppingTimes (arguments_' e),
            maturity = maturity (arguments_' e)\<rparr>"
  have pipeline:
    "(case setOriginalArguments lib x of
        Inl thrown \<Rightarrow> Inl thrown
      | Inr e1 \<Rightarrow>
          (case calculate cls (originalEngine_' e1) of
             Inl (err, w) \<Rightarrow> Inl (err, e1\<lparr>originalEngine_' := w\<rparr>)
           | Inr w \<Rightarrow> finish (e1\<lparr>originalEngine_' := w\<rparr>)))
     = (case ArgumentsType_validate lib oa of
          Inl err \<Rightarrow> Inl (err, e\<lparr>originalEngine_' := start\<lparr>arguments := oa\<rparr>\<rparr>)
        | Inr _ \<Rightarrow>
            (case calculate cls (start\<lparr>arguments := oa\<rparr>) of
               Inl (err, w) \<Rightarrow> Inl (err, e\<lparr>originalEngine_' := w\<rparr>)
             | Inr w \<Rightarrow> finish (e\<lparr>originalEngine_' := w\<rparr>)))"
    if x: "x = e\<lparr>originalEngine_' := start\<rparr>"
    for x :: "('a, 'b) ForwardEngine" and start
      and finish :: "('a, 'b) ForwardEngine \<Rightarrow> ('a, 'b) ForwardEngine outcome"
  proof -
    have px: "originalArguments_' x = pointing" and ax: "arguments_' x = arguments_' e"
      using p x by simp_all
    have sx: "setOriginalArguments lib x =
                (case ArgumentsType_validate lib oa of
                   Inl err \<Rightarrow>
                     Inl (err, x\<lparr>originalEngine_' := (originalEngine_' x)\<lparr>arguments := oa\<rparr>\<rparr>)
                 | Inr _ \<Rightarrow>
                     Inr (x\<lparr>originalEngine_' := (originalEngine_' x)\<lparr>arguments := oa\<rparr>\<rparr>))"
      unfolding oa_def ax [symmetric] using setOriginalArguments_resolved [OF px, of lib]
      by (simp only: Let_def)
    show ?thesis
    proof (cases "ArgumentsType_validate lib oa")
      case (Inl err)
      then show ?thesis unfolding sx by (simp add: x)
    next
      case (Inr u)
      then show ?thesis
        unfolding sx
        by (cases "calculate cls (start\<lparr>arguments := oa\<rparr>)") (auto simp add: x)
    qed
  qed
  have f: "ForwardEngine_calculate lib cls e =
             (case ArgumentsType_validate lib oa of
                Inl err \<Rightarrow>
                  Inl (err, e\<lparr>originalEngine_' :=
                                (reset cls (originalEngine_' e))\<lparr>arguments := oa\<rparr>\<rparr>)
              | Inr _ \<Rightarrow>
                  (case calculate cls ((reset cls (originalEngine_' e))\<lparr>arguments := oa\<rparr>) of
                     Inl (err, w) \<Rightarrow> Inl (err, e\<lparr>originalEngine_' := w\<rparr>)
                   | Inr w \<Rightarrow> ForwardEngine_getOriginalResults (e\<lparr>originalEngine_' := w\<rparr>)))"
    unfolding ForwardEngine_calculate_def Let_def
    by (rule pipeline) simp
  have g: "ForwardPerformanceEngine_calculate lib cls e =
             (case ArgumentsType_validate lib oa of
                Inl err \<Rightarrow>
                  Inl (err, e\<lparr>originalEngine_' := (originalEngine_' e)\<lparr>arguments := oa\<rparr>\<rparr>)
              | Inr _ \<Rightarrow>
                  (case calculate cls ((originalEngine_' e)\<lparr>arguments := oa\<rparr>) of
                     Inl (err, w) \<Rightarrow> Inl (err, e\<lparr>originalEngine_' := w\<rparr>)
                   | Inr w \<Rightarrow>
                       ForwardPerformanceEngine_getOriginalResults
                         (e\<lparr>originalEngine_' := w\<rparr>)))"
    unfolding ForwardPerformanceEngine_calculate_def
    by (rule pipeline) simp
  show ?same_run
    unfolding Let_def oa_def [symmetric] using f g by blast
qed

theorem calculate_order_witness:
  "originalArguments_' (example_engine 100 ()) = pointing
   \<and> map_sum fst (value' \<circ> results \<circ> originalEngine_')
     (ForwardEngine_calculate example_library accumulating_engine (example_engine 100 ()))
     = Inr 1
   \<and> map_sum fst (value' \<circ> results \<circ> originalEngine_')
     (ForwardPerformanceEngine_calculate example_library accumulating_engine
        (example_engine 100 ()))
     = Inr 11"
proof -
  let ?e = "example_engine 100 () :: (unit, unit) ForwardEngine"
  have p: "originalArguments_' ?e = pointing"
    by (simp add: example_engine_def)
  note run = calculate_order [of example_library accumulating_engine ?e,
      THEN conjunct2, THEN conjunct2, rule_format, OF p, unfolded Let_def]
  have f: "map_sum fst (value' \<circ> results \<circ> originalEngine_')
             (ForwardEngine_calculate example_library accumulating_engine ?e) = Inr 1"
    unfolding run [THEN conjunct1]
    by (simp add: ForwardEngine_getOriginalResults_def Let_def accumulating_engine_def
        example_engine_def example_library_def example_original_def stub_results_def)
  have g: "map_sum fst (value' \<circ> results \<circ> originalEngine_')
             (ForwardPerformanceEngine_calculate example_library accumulating_engine ?e)
           = Inr 11"
    unfolding run [THEN conjunct2]
    by (simp add: ForwardPerformanceEngine_getOriginalResults_def Let_def
        accumulating_engine_def example_engine_def example_arguments_def example_library_def
        example_original_def stub_results_def)
  from p f g show ?thesis
    by blast
qed






lemma sampling_engine_does_not_reproduce:
  assumes "value' (results w) \<noteq> real (internal w)"
  shows "\<not> reproduces_results sampling_engine a w"
proof
  assume "reproduces_results sampling_engine a w"
  then have "stub_results\<lparr>value' := real (internal w)\<rparr> = results w"
    by (simp add: reproduces_results_def sampling_engine_def observed_def)
  then have "value' (results w) = real (internal w)"
    by (metis ResultsType.select_convs(1) ResultsType.surjective ResultsType.update_convs(1))
  with assms show False
    by simp
qed

subsection \<open>Constructing the Monte Carlo European pricer\<close>

text \<open>
  C8. The constructor of \<^verbatim>\<open>McEuropean\<close> builds the path generator from the drift
  riskFreeRate - dividendYield - half the squared volatility, the variance (the squared volatility), the residual
  time, the number 1 and the caller's seed, and the path pricer from the option type, the
  underlying, the strike, the discount exp (- riskFreeRate * residualTime) and the
  antithetic-variance flag; the model holds the two and an empty statistics accumulator.
\<close>

theorem McEuropean_ctor_configuration:
  "McEuropean_ctor mc t u k q r T \<sigma> av seed =
     (case GaussianPathGenerator mc (r - q - \<sigma>\<^sup>2 / 2) (\<sigma>\<^sup>2) T 1 seed of
        Inl err \<Rightarrow> Inl err
      | Inr pathGenerator \<Rightarrow>
          (case EuropeanPathPricer mc t u k (exp (- (r * T))) av of
             Inl err \<Rightarrow> Inl err
           | Inr pathPricer \<Rightarrow>
               Inr \<lparr>mcModel_' = MonteCarloModel pathGenerator pathPricer (Statistics mc)\<rparr>))"
  by (simp add: McEuropean_ctor_def power2_eq_square split: sum.split)

lemma McEuropean_ctor_example:
  "McEuropean_ctor checking_MonteCarlo Call 100 100 0 (5 / 100) 1 (20 / 100) True 42 =
     Inr \<lparr>mcModel_' = MonteCarloModel (Generator (3 / 100) (4 / 100) 1 1 42)
                         (Pricer Call 100 100 (exp (- (5 / 100))) True) ()\<rparr>"
  by (simp add: McEuropean_ctor_def checking_MonteCarlo_def)

text \<open>
  C9, as the code has it. The constructor of \<^verbatim>\<open>McEuropean\<close> checks nothing itself: it throws
  exactly when the constructor of the path generator or of the path pricer throws on what
  it is handed. The volatility is handed on only as its square, so a negative volatility
  builds the same pricer as its absolute value.
\<close>

theorem McEuropean_ctor_checks_nothing:
  "(\<exists>err. McEuropean_ctor mc t u k q r T \<sigma> av seed = Inl err) =
     ((\<exists>err. GaussianPathGenerator mc (r - q - 0.5 * \<sigma> * \<sigma>) (\<sigma> * \<sigma>) T 1 seed = Inl err)
      \<or> (\<exists>err. EuropeanPathPricer mc t u k (exp (- r * T)) av = Inl err))
   \<and> McEuropean_ctor mc t u k q r T (- \<sigma>) av seed = McEuropean_ctor mc t u k q r T \<sigma> av seed"
  by (auto simp add: McEuropean_ctor_def split: sum.splits)

text \<open>
  The claim C9 as stated fails: with a path generator that refuses every variance and
  length that is not positive, a volatility of - 0.2 is accepted.
\<close>

theorem McEuropean_ctor_negative_volatility:
  "McEuropean_ctor checking_MonteCarlo Call 100 100 0 (5 / 100) 1 (- (20 / 100)) True 42 =
     Inr \<lparr>mcModel_' = MonteCarloModel (Generator (3 / 100) (4 / 100) 1 1 42)
                         (Pricer Call 100 100 (exp (- (5 / 100))) True) ()\<rparr>"
  by (simp add: McEuropean_ctor_def checking_MonteCarlo_def)

end
